theory Spec2Isabelle
  imports Main "HOL-Library.Sublist"
begin

section \<open>HTTP values shared by the two route modules\<close>

text \<open>
  A parsed URL as the handlers use it: \<open>href\<close> is the string \<^verbatim>\<open>request.url\<close>,
  \<open>searchParams\<close> the decoded query pairs of \<^verbatim>\<open>new URL(request.url).searchParams\<close>, in the
  order they occur (a key may occur more than once). The form body of a submission is the
  pair list of \<^verbatim>\<open>new URLSearchParams(await request.text())\<close>. The percent-decoding done by
  the platform's URL parser is not part of the repository and is not modelled.
\<close>

type_synonym params = "(string \<times> string) list"

record url =
  href :: string
  searchParams :: params

record request =
  url :: url
  cookie :: "string option"
  formData :: params

text \<open>\<^verbatim>\<open>URLSearchParams.has\<close> and \<^verbatim>\<open>URLSearchParams.get\<close>: \<open>get\<close> yields the first value
  stored under the name, \<open>None\<close> (JavaScript \<^verbatim>\<open>null\<close>) when there is none.\<close>

definition params_get :: "params \<Rightarrow> string \<Rightarrow> string option" where
  "params_get ps k = map_of ps k"

definition params_has :: "params \<Rightarrow> string \<Rightarrow> bool" where
  "params_has ps k = (map_of ps k \<noteq> None)"

text \<open>A response: status, the headers set by the handler, and the JSON body (absent on a
  redirect). Header names are compared as written; both route modules spell every name the
  same way at each use.\<close>

type_synonym headers = "string \<rightharpoonup> string"

record 'a response =
  resp_status :: nat
  resp_headers :: headers
  resp_body :: "'a option"

definition json :: "'a \<Rightarrow> headers \<Rightarrow> 'a response" where
  "json d hs = \<lparr>resp_status = 200, resp_headers = hs, resp_body = Some d\<rparr>"

definition redirect :: "string \<Rightarrow> unit response" where
  "redirect target = \<lparr>resp_status = 302, resp_headers = [''Location'' \<mapsto> target], resp_body = None\<rparr>"

section \<open>The catalog client\<close>

text \<open>
  The three operations of \<^verbatim>\<open>getSdk(storefront)\<close> are parameters of the handlers: each is
  given by the outcome of its promise, \<open>Inr\<close> the resolved value and \<open>Inl\<close> the rejection.
  The result shapes are the ones the handlers destructure.
\<close>

text \<open>Modelled from the spec: the catalog client (\<^verbatim>\<open>~/graphql\<close>, \<^verbatim>\<open>~/lib/storefront.server\<close>)
  is not among the sources. Its one failure is a transport or remote failure, which
  "propagates as a distinct CatalogUnavailable error".\<close>

datatype catalog_error = CatalogUnavailable

record product =
  handle :: string
  title :: string

record products_edge =
  node :: product

record products_connection =
  edges :: "products_edge list"

record ProductsQuery =
  products :: products_connection

record ProductByHandleQuery =
  productByHandle :: "product option"

record checkout =
  webUrl :: string

record checkout_create_payload =
  checkout :: "checkout option"

record CreateCheckoutMutation =
  checkoutCreate :: "checkout_create_payload option"

record sdk =
  ProductByHandle :: "string \<Rightarrow> catalog_error + ProductByHandleQuery"
  Products :: "catalog_error + ProductsQuery"
  CreateCheckout :: "string \<Rightarrow> catalog_error + CreateCheckoutMutation"

text \<open>Every handler returns, next to its outcome, the catalog operations it has issued.\<close>

datatype catalog_call =
  CallProductByHandle string
  | CallProducts
  | CallCreateCheckout string

text \<open>\<^verbatim>\<open>await Promise.all([p, q])\<close> on two promises that have both been issued: the pair of
  values when both resolve, a rejection as soon as one of them rejects.\<close>

definition promise_all :: "catalog_error + 'a \<Rightarrow> catalog_error + 'b \<Rightarrow> catalog_error + 'a \<times> 'b" where
  "promise_all p q =
     (case p of
        Inl e \<Rightarrow> Inl e
      | Inr a \<Rightarrow> (case q of Inl e \<Rightarrow> Inl e | Inr b \<Rightarrow> Inr (a, b)))"

section \<open>The product route: \<^verbatim>\<open>app/routes/products.$handle.tsx\<close>\<close>

record RouteData =
  product :: "product option"
  relatedProducts :: "products_edge list"

text \<open>The loader. \<open>h\<close> is \<^verbatim>\<open>params.handle\<close>. Both reads are issued before the
  \<^verbatim>\<open>await\<close>; a rejection of either leaves the loader without a response.\<close>

definition loader :: "sdk \<Rightarrow> string \<Rightarrow> (catalog_error + RouteData response) \<times> catalog_call list" where
  "loader s h =
     (let calls = [CallProductByHandle h, CallProducts] in
      case promise_all (ProductByHandle s h) (Products s) of
        Inl e \<Rightarrow> (Inl e, calls)
      | Inr (r1, r2) \<Rightarrow>
          (let related = take 4 (filter (\<lambda>item. handle (node item) \<noteq> h) (edges (products r2)))
           in (Inr (json \<lparr>product = productByHandle r1, relatedProducts = related\<rparr>
                      [''Cache-Control'' \<mapsto> ''max-age=60, s-maxage=3600, stale-while-revalidate=604800'']),
               calls)))"

text \<open>The action. \<^verbatim>\<open>!variantId\<close> holds for \<^verbatim>\<open>null\<close> and for the empty string;
  \<^verbatim>\<open>!res.checkoutCreate?.checkout\<close> holds when either level is missing. There is no
  \<^verbatim>\<open>try\<close> around the catalog call: its rejection is the action's rejection.\<close>

definition action :: "sdk \<Rightarrow> request \<Rightarrow> (catalog_error + unit response) \<times> catalog_call list" where
  "action s req =
     (case params_get (formData req) ''variantId'' of
        None \<Rightarrow> (Inr (redirect (href (url req))), [])
      | Some variantId \<Rightarrow>
          if variantId = [] then (Inr (redirect (href (url req))), [])
          else
            (case CreateCheckout s variantId of
               Inl e \<Rightarrow> (Inl e, [CallCreateCheckout variantId])
             | Inr res \<Rightarrow>
                 (case checkoutCreate res of
                    None \<Rightarrow> (Inr (redirect (href (url req))), [CallCreateCheckout variantId])
                  | Some cc \<Rightarrow>
                      (case checkout cc of
                         None \<Rightarrow> (Inr (redirect (href (url req))), [CallCreateCheckout variantId])
                       | Some c \<Rightarrow> (Inr (redirect (webUrl c)), [CallCreateCheckout variantId])))))"

text \<open>The route's \<^verbatim>\<open>headers\<close> function: \<^verbatim>\<open>loaderHeaders.get("Cache-Control") ?? ""\<close>.\<close>

definition headers :: "headers \<Rightarrow> headers" where
  "headers loaderHeaders =
     [''Cache-Control'' \<mapsto> (case loaderHeaders ''Cache-Control'' of None \<Rightarrow> [] | Some v \<Rightarrow> v)]"

text \<open>The spec's wording of the related-products step, read as a walk over the list:
  skip the entries whose handle is the requested one and keep the others, in order, until
  \<open>n\<close> are kept.\<close>

fun spec_related :: "nat \<Rightarrow> string \<Rightarrow> products_edge list \<Rightarrow> products_edge list" where
  "spec_related 0 h xs = []"
| "spec_related (Suc n) h [] = []"
| "spec_related (Suc n) h (x # xs) =
     (if handle (node x) = h then spec_related (Suc n) h xs else x # spec_related n h xs)"

section \<open>The root module: \<^verbatim>\<open>app/root.tsx\<close>\<close>

text \<open>
  A session bag maps keys to primitive values; \<^verbatim>\<open>session.get\<close> of a key that was never set
  is \<^verbatim>\<open>undefined\<close>, here \<open>None\<close>. \<open>truthy\<close> is JavaScript's conversion to a boolean, which
  decides \<^verbatim>\<open>enableJS && <Scripts />\<close>.
\<close>

datatype primitive = PBool bool | PNumber int | PString string | PNull

type_synonym session = "string \<rightharpoonup> primitive"

fun truthy :: "primitive option \<Rightarrow> bool" where
  "truthy None = False"
| "truthy (Some (PBool b)) = b"
| "truthy (Some (PNumber n)) = (n \<noteq> 0)"
| "truthy (Some (PString s)) = (s \<noteq> [])"
| "truthy (Some PNull) = False"

text \<open>The session codec of \<^verbatim>\<open>./session.server\<close> is a parameter of the loader:
  \<open>getSession\<close> decodes the \<^verbatim>\<open>Cookie\<close> header (which may be absent), \<open>commitSession\<close>
  encodes a bag into the \<^verbatim>\<open>Set-Cookie\<close> value.\<close>

record session_storage =
  getSession :: "string option \<Rightarrow> session"
  commitSession :: "session \<Rightarrow> string"

record root_data =
  js :: "primitive option"

definition root_loader :: "session_storage \<Rightarrow> request \<Rightarrow> root_data response" where
  "root_loader st req =
     (let session = getSession st (cookie req);
          u = url req;
          (enableJS, session') =
            (if params_has (searchParams u) ''js''
             then (let j = (params_get (searchParams u) ''js'' = Some ''1'')
                   in (Some (PBool j), session(''js'' \<mapsto> PBool j)))
             else (session ''js'', session))
      in json \<lparr>js = enableJS\<rparr> [''Set-Cookie'' \<mapsto> commitSession st session'])"

text \<open>What the components render, as far as the claims need it: the children of the
  document and whether \<^verbatim>\<open><Scripts />\<close> is attached.\<close>

datatype element = Header | Outlet | Footer | H1 string

record document =
  children :: "element list"
  scripts :: bool

definition Document :: "element list \<Rightarrow> primitive option \<Rightarrow> document" where
  "Document cs enableJS = \<lparr>children = cs, scripts = truthy enableJS\<rparr>"

definition App :: "root_data \<Rightarrow> document" where
  "App d = Document [Header, Outlet, Footer] (js d)"

text \<open>A number in a template literal: the decimal digits of a status code.\<close>

fun string_of_nat :: "nat \<Rightarrow> string" where
  "string_of_nat n =
     (if n < 10 then [char_of (48 + n)]
      else string_of_nat (n div 10) @ [char_of (48 + n mod 10)])"

declare string_of_nat.simps [simp del]

record caught =
  status :: nat
  statusText :: string

datatype js_error = Error string

text \<open>The catch boundary: the two \<^verbatim>\<open>case\<close> labels share one body, \<^verbatim>\<open>default\<close> throws.
  \<^verbatim>\<open><Document>\<close> is used without \<^verbatim>\<open>enableJS\<close>, which is then \<^verbatim>\<open>undefined\<close>.\<close>

definition CatchBoundary :: "caught \<Rightarrow> js_error + document" where
  "CatchBoundary c =
     (if status c = 401 \<or> status c = 404
      then Inr (Document [H1 (string_of_nat (status c) @ '' '' @ statusText c)] None)
      else Inl (Error (''Unexpected caught response with status: '' @ string_of_nat (status c))))"

text \<open>Modelled from the spec: \<^verbatim>\<open>./session.server\<close> is not among the sources. A codec with
  the spec's contract, for a bag that carries the one key \<open>js\<close>: decoding never fails, a
  missing or unreadable cookie decodes to the empty bag, and encoding is a function of the
  bag's contents.\<close>

definition js_storage :: session_storage where
  "js_storage =
     \<lparr>getSession = (\<lambda>c.
         if c = Some ''js=true'' then [''js'' \<mapsto> PBool True]
         else if c = Some ''js=false'' then [''js'' \<mapsto> PBool False]
         else Map.empty),
      commitSession = (\<lambda>s.
         case s ''js'' of
           Some (PBool True) \<Rightarrow> ''js=true''
         | Some (PBool False) \<Rightarrow> ''js=false''
         | _ \<Rightarrow> [])\<rparr>"

section \<open>Sample inputs\<close>

text \<open>The catalog of the spec's scenario: six products, of which \<open>classic-tee\<close> is the
  first. One variant can be checked out; for any other the remote service declines.\<close>

definition scenario_edges :: "products_edge list" where
  "scenario_edges =
     map (\<lambda>h. \<lparr>node = \<lparr>handle = h, title = h\<rparr>\<rparr>)
       [''classic-tee'', ''hoodie'', ''cap'', ''socks'', ''mug'', ''scarf'']"

definition scenario_sdk :: sdk where
  "scenario_sdk =
     \<lparr>ProductByHandle = (\<lambda>h.
        Inr \<lparr>productByHandle = find (\<lambda>p. handle p = h) (map node scenario_edges)\<rparr>),
      Products = Inr \<lparr>products = \<lparr>edges = scenario_edges\<rparr>\<rparr>,
      CreateCheckout = (\<lambda>v.
        if v = ''variant-1''
        then Inr \<lparr>checkoutCreate =
                   Some \<lparr>checkout = Some \<lparr>webUrl = ''https://checkout.example/c/1''\<rparr>\<rparr>\<rparr>
        else Inr \<lparr>checkoutCreate = Some \<lparr>checkout = None\<rparr>\<rparr>)\<rparr>"

text \<open>A catalog whose product list and checkout creation fail in transport while the
  read of one product still resolves.\<close>

definition unavailable_sdk :: sdk where
  "unavailable_sdk =
     \<lparr>ProductByHandle = (\<lambda>h. Inr \<lparr>productByHandle = None\<rparr>),
      Products = Inl CatalogUnavailable,
      CreateCheckout = (\<lambda>v. Inl CatalogUnavailable)\<rparr>"

definition page_request :: "params \<Rightarrow> string option \<Rightarrow> request" where
  "page_request q c =
     \<lparr>url = \<lparr>href = ''https://shop.example/products/classic-tee'', searchParams = q\<rparr>,
      cookie = c, formData = []\<rparr>"

definition submission :: "params \<Rightarrow> request" where
  "submission f =
     \<lparr>url = \<lparr>href = ''https://shop.example/products/classic-tee'', searchParams = []\<rparr>,
      cookie = None, formData = f\<rparr>"

section \<open>Running the product loader\<close>

lemma take_filter_spec:
  "take n (filter (\<lambda>item. handle (node item) \<noteq> h) xs) = spec_related n h xs"
  by (induction n h xs rule: spec_related.induct) auto

lemma loader_resolved:
  assumes "ProductByHandle s h = Inr r1" and "Products s = Inr r2"
  shows "loader s h =
     (Inr (json \<lparr>product = productByHandle r1,
                 relatedProducts =
                   take 4 (filter (\<lambda>item. handle (node item) \<noteq> h) (edges (products r2)))\<rparr>
             [''Cache-Control'' \<mapsto> ''max-age=60, s-maxage=3600, stale-while-revalidate=604800'']),
      [CallProductByHandle h, CallProducts])"
  using assms by (simp add: loader_def promise_all_def)

lemma loader_rejected:
  assumes "ProductByHandle s h = Inl e \<or> Products s = Inl e"
  shows "fst (loader s h) = Inl e"
proof (cases "ProductByHandle s h")
  case (Inl e')
  then show ?thesis by (cases e; cases e') (simp add: loader_def promise_all_def)
next
  case (Inr r1)
  with assms show ?thesis by (simp add: loader_def promise_all_def)
qed

lemma scenario_product:
  "ProductByHandle scenario_sdk ''classic-tee'' =
     Inr \<lparr>productByHandle = Some \<lparr>handle = ''classic-tee'', title = ''classic-tee''\<rparr>\<rparr>"
  by (simp add: scenario_sdk_def scenario_edges_def)

lemma scenario_ghost:
  "ProductByHandle scenario_sdk ''ghost-product'' = Inr \<lparr>productByHandle = None\<rparr>"
  by (simp add: scenario_sdk_def scenario_edges_def)

lemma scenario_list:
  "Products scenario_sdk = Inr \<lparr>products = \<lparr>edges = scenario_edges\<rparr>\<rparr>"
  by (simp add: scenario_sdk_def)

section \<open>Related products\<close>

text \<open>
  Claim C1. Whenever both catalog reads resolve, the loader answers with a view model whose
  \<open>relatedProducts\<close> has no entry with the requested handle, has at most 4 entries, and is
  what the spec's walk yields: the first 4 entries of the catalog list that are left after
  the requested handle is skipped, in the list's own order (it is a subsequence of the list).
\<close>

theorem related_products_first_four_others:
  assumes "ProductByHandle s h = Inr r1" and "Products s = Inr r2"
  shows "\<exists>resp d. fst (loader s h) = Inr resp \<and> resp_body resp = Some d
           \<and> (\<forall>e \<in> set (relatedProducts d). handle (node e) \<noteq> h)
           \<and> length (relatedProducts d) \<le> 4
           \<and> relatedProducts d = spec_related 4 h (edges (products r2))
           \<and> subseq (relatedProducts d) (edges (products r2))"
proof -
  let ?rest = "filter (\<lambda>item. handle (node item) \<noteq> h) (edges (products r2))"
  let ?d = "\<lparr>product = productByHandle r1, relatedProducts = take 4 ?rest\<rparr>"
  let ?resp = "json ?d
     [''Cache-Control'' \<mapsto> ''max-age=60, s-maxage=3600, stale-while-revalidate=604800'']"
  have run: "fst (loader s h) = Inr ?resp"
    using loader_resolved [OF assms] by simp
  have body: "resp_body ?resp = Some ?d"
    by (simp add: json_def)
  have others: "\<forall>e \<in> set (take 4 ?rest). handle (node e) \<noteq> h"
    using set_take_subset [of 4 ?rest] by auto
  have order: "subseq (take 4 ?rest) (edges (products r2))"
  proof -
    have "subseq (take 4 ?rest) ?rest"
      by (rule prefix_imp_subseq) (rule take_is_prefix)
    also have "subseq ?rest (edges (products r2))"
      by (rule subseq_filter_left)
    finally show ?thesis .
  qed
  have len: "length (take 4 ?rest) \<le> 4" by simp
  show ?thesis
  proof (intro exI conjI)
    show "fst (loader s h) = Inr ?resp" by (rule run)
    show "resp_body ?resp = Some ?d" by (rule body)
    show "\<forall>e \<in> set (relatedProducts ?d). handle (node e) \<noteq> h"
      unfolding RouteData.select_convs by (rule others)
    show "length (relatedProducts ?d) \<le> 4"
      unfolding RouteData.select_convs by (rule len)
    show "relatedProducts ?d = spec_related 4 h (edges (products r2))"
      unfolding RouteData.select_convs by (rule take_filter_spec)
    show "subseq (relatedProducts ?d) (edges (products r2))"
      unfolding RouteData.select_convs by (rule order)
  qed
qed

theorem related_products_first_four_others_witness:
  "\<exists>resp d. fst (loader scenario_sdk ''classic-tee'') = Inr resp \<and> resp_body resp = Some d
     \<and> map (\<lambda>e. handle (node e)) (relatedProducts d) = [''hoodie'', ''cap'', ''socks'', ''mug'']"
proof -
  obtain resp d where run: "fst (loader scenario_sdk ''classic-tee'') = Inr resp"
    and body: "resp_body resp = Some d"
    and rel: "relatedProducts d =
                spec_related 4 ''classic-tee'' (edges (products \<lparr>products = \<lparr>edges = scenario_edges\<rparr>\<rparr>))"
    using related_products_first_four_others [OF scenario_product scenario_list] by blast
  have names: "map (\<lambda>e. handle (node e)) (relatedProducts d) = [''hoodie'', ''cap'', ''socks'', ''mug'']"
    unfolding rel by (simp add: scenario_edges_def eval_nat_numeral)
  show ?thesis
    by (rule exI [of _ resp], rule exI [of _ d]) (simp add: run body names)
qed

section \<open>Failure and absence in the product loader\<close>

text \<open>
  Claim C4. If either of the two catalog reads of a page request raises
  \<open>CatalogUnavailable\<close>, the loader as a whole fails with \<open>CatalogUnavailable\<close>: it has no
  response at all, whatever the other read returned. Both reads have been issued by then.
\<close>

theorem loader_fails_when_either_read_fails:
  assumes "ProductByHandle s h = Inl CatalogUnavailable \<or> Products s = Inl CatalogUnavailable"
  shows "fst (loader s h) = Inl CatalogUnavailable
       \<and> (\<forall>resp. fst (loader s h) \<noteq> Inr resp)
       \<and> snd (loader s h) = [CallProductByHandle h, CallProducts]"
proof -
  have failed: "fst (loader s h) = Inl CatalogUnavailable"
    using assms by (rule loader_rejected)
  have issued: "snd (loader s h) = [CallProductByHandle h, CallProducts]"
    by (simp add: loader_def Let_def split: sum.splits prod.splits)
  show ?thesis
    unfolding failed issued by simp
qed

theorem loader_fails_when_either_read_fails_witness:
  "ProductByHandle unavailable_sdk ''classic-tee'' = Inr \<lparr>productByHandle = None\<rparr>
   \<and> Products unavailable_sdk = Inl CatalogUnavailable
   \<and> fst (loader unavailable_sdk ''classic-tee'') = Inl CatalogUnavailable"
proof -
  have list: "Products unavailable_sdk = Inl CatalogUnavailable"
    by (simp add: unavailable_sdk_def)
  have one: "ProductByHandle unavailable_sdk ''classic-tee'' = Inr \<lparr>productByHandle = None\<rparr>"
    by (simp add: unavailable_sdk_def)
  have "fst (loader unavailable_sdk ''classic-tee'') = Inl CatalogUnavailable"
    using loader_fails_when_either_read_fails [of unavailable_sdk "''classic-tee''"] list
    by simp
  with one list show ?thesis by simp
qed

text \<open>
  Claim C8. When the read of the product resolves to \<open>null\<close> (unknown handle) and the list
  read resolves, the loader still answers with status 200 and the view model
  \<open>{product: null, relatedProducts}\<close>, the related products being computed as for a known
  handle.
\<close>

theorem unknown_handle_still_yields_view_model:
  assumes "ProductByHandle s h = Inr r1" and "productByHandle r1 = None"
    and "Products s = Inr r2"
  shows "fst (loader s h) =
           Inr \<lparr>resp_status = 200,
                resp_headers =
                  [''Cache-Control'' \<mapsto> ''max-age=60, s-maxage=3600, stale-while-revalidate=604800''],
                resp_body = Some \<lparr>product = None,
                                  relatedProducts = spec_related 4 h (edges (products r2))\<rparr>\<rparr>"
  using loader_resolved [OF assms(1) assms(3)] assms(2)
  by (simp add: json_def take_filter_spec)

theorem unknown_handle_still_yields_view_model_witness:
  "\<exists>resp d. fst (loader scenario_sdk ''ghost-product'') = Inr resp \<and> resp_body resp = Some d
     \<and> product d = None
     \<and> map (\<lambda>e. handle (node e)) (relatedProducts d) =
         [''classic-tee'', ''hoodie'', ''cap'', ''socks'']"
proof -
  have none: "productByHandle \<lparr>productByHandle = None\<rparr> = None"
    by simp
  have walk: "map (\<lambda>e. handle (node e))
                (spec_related 4 ''ghost-product''
                   (edges (products \<lparr>products = \<lparr>edges = scenario_edges\<rparr>\<rparr>))) =
              [''classic-tee'', ''hoodie'', ''cap'', ''socks'']"
    by (simp add: scenario_edges_def eval_nat_numeral)
  show ?thesis
    unfolding unknown_handle_still_yields_view_model [OF scenario_ghost none scenario_list]
    using walk by simp
qed

section \<open>The cache directive\<close>

text \<open>
  Claim C7. Every response of the product loader carries the one fixed
  \<open>Cache-Control\<close> value, whatever the catalog and the handle; the route's \<open>headers\<close>
  function puts exactly the loader's value on the served response (for any loader headers
  \<open>lh\<close> that carry a value \<open>v\<close>, the result is that \<open>v\<close> and nothing else).
\<close>

theorem cache_control_fixed_and_copied:
  assumes "fst (loader s h) = Inr resp"
  shows "resp_headers resp ''Cache-Control'' =
           Some ''max-age=60, s-maxage=3600, stale-while-revalidate=604800''
       \<and> headers (resp_headers resp) =
           [''Cache-Control'' \<mapsto> ''max-age=60, s-maxage=3600, stale-while-revalidate=604800'']
       \<and> headers (resp_headers resp) ''Cache-Control'' = resp_headers resp ''Cache-Control''
       \<and> (lh ''Cache-Control'' = Some v \<longrightarrow> headers lh = [''Cache-Control'' \<mapsto> v])"
proof -
  have fixed: "resp_headers resp ''Cache-Control'' =
           Some ''max-age=60, s-maxage=3600, stale-while-revalidate=604800''"
    using assms
    by (auto simp: loader_def promise_all_def json_def split: sum.splits)
  have copy: "lh ''Cache-Control'' = Some v \<longrightarrow> headers lh = [''Cache-Control'' \<mapsto> v]"
    by (simp add: headers_def)
  show ?thesis
    using copy by (simp add: headers_def fixed)
qed

theorem cache_control_fixed_and_copied_witness:
  "\<exists>resp. fst (loader scenario_sdk ''classic-tee'') = Inr resp
     \<and> headers (resp_headers resp) =
         [''Cache-Control'' \<mapsto> ''max-age=60, s-maxage=3600, stale-while-revalidate=604800'']"
proof -
  obtain resp where run: "fst (loader scenario_sdk ''classic-tee'') = Inr resp"
    using loader_resolved [OF scenario_product scenario_list] by simp
  have "headers (resp_headers resp) =
         [''Cache-Control'' \<mapsto> ''max-age=60, s-maxage=3600, stale-while-revalidate=604800'']"
    using cache_control_fixed_and_copied [OF run, of "resp_headers resp"] by simp
  with run show ?thesis by (intro exI [of _ resp]) simp
qed

section \<open>The checkout submission\<close>

lemma action_submitted:
  assumes "params_get (formData req) ''variantId'' = Some v" and "v \<noteq> []"
  shows "action s req =
     (case CreateCheckout s v of
        Inl e \<Rightarrow> (Inl e, [CallCreateCheckout v])
      | Inr res \<Rightarrow>
          (case checkoutCreate res of
             None \<Rightarrow> (Inr (redirect (href (url req))), [CallCreateCheckout v])
           | Some cc \<Rightarrow>
               (case checkout cc of
                  None \<Rightarrow> (Inr (redirect (href (url req))), [CallCreateCheckout v])
                | Some c \<Rightarrow> (Inr (redirect (webUrl c)), [CallCreateCheckout v]))))"
  using assms by (simp add: action_def)

text \<open>
  Claim C2, as the code has it. For a submission with a non-empty \<open>variantId\<close>: when the
  catalog answers without a checkout (\<open>checkoutCreate\<close> or its \<open>checkout\<close> is null) the
  action redirects to the request's own URL; when a checkout is created it redirects to the
  checkout's \<open>webUrl\<close>; when the catalog call raises \<open>CatalogUnavailable\<close> there is no
  redirect: the action fails with that error.
\<close>

theorem checkout_outcome_decides_redirect:
  assumes "params_get (formData req) ''variantId'' = Some v" and "v \<noteq> []"
  shows "(CreateCheckout s v = Inr res
            \<and> (checkoutCreate res = None \<or> checkoutCreate res = Some \<lparr>checkout = None\<rparr>)
          \<longrightarrow> fst (action s req) = Inr (redirect (href (url req))))
       \<and> (CreateCheckout s v = Inr res \<and> checkoutCreate res = Some \<lparr>checkout = Some c\<rparr>
          \<longrightarrow> fst (action s req) = Inr (redirect (webUrl c))
              \<and> resp_headers (redirect (webUrl c)) ''Location'' = Some (webUrl c))
       \<and> (CreateCheckout s v = Inl CatalogUnavailable
          \<longrightarrow> fst (action s req) = Inl CatalogUnavailable)"
  unfolding action_submitted [OF assms]
  by (auto simp: redirect_def)

theorem checkout_outcome_decides_redirect_witness:
  "fst (action scenario_sdk (submission [(''variantId'', ''variant-1'')]))
     = Inr (redirect ''https://checkout.example/c/1'')
   \<and> fst (action scenario_sdk (submission [(''variantId'', ''variant-9'')]))
     = Inr (redirect ''https://shop.example/products/classic-tee'')
   \<and> fst (action unavailable_sdk (submission [(''variantId'', ''variant-1'')]))
     = Inl CatalogUnavailable"
proof -
  have created:
    "fst (action scenario_sdk (submission [(''variantId'', ''variant-1'')]))
       = Inr (redirect ''https://checkout.example/c/1'')"
    using checkout_outcome_decides_redirect
      [of "submission [(''variantId'', ''variant-1'')]" "''variant-1''" scenario_sdk
          "\<lparr>checkoutCreate = Some \<lparr>checkout = Some \<lparr>webUrl = ''https://checkout.example/c/1''\<rparr>\<rparr>\<rparr>"
          "\<lparr>webUrl = ''https://checkout.example/c/1''\<rparr>"]
    by (simp add: params_get_def submission_def scenario_sdk_def)
  have declined:
    "fst (action scenario_sdk (submission [(''variantId'', ''variant-9'')]))
       = Inr (redirect ''https://shop.example/products/classic-tee'')"
    using checkout_outcome_decides_redirect
      [of "submission [(''variantId'', ''variant-9'')]" "''variant-9''" scenario_sdk
          "\<lparr>checkoutCreate = Some \<lparr>checkout = None\<rparr>\<rparr>"]
    by (simp add: params_get_def submission_def scenario_sdk_def)
  have failed:
    "fst (action unavailable_sdk (submission [(''variantId'', ''variant-1'')]))
       = Inl CatalogUnavailable"
    using checkout_outcome_decides_redirect
      [of "submission [(''variantId'', ''variant-1'')]" "''variant-1''" unavailable_sdk]
    by (simp add: params_get_def submission_def unavailable_sdk_def)
  from created declined failed show ?thesis by simp
qed

text \<open>
  Claim C2 as stated fails where the catalog call raises: the submission carries the
  non-empty \<open>variantId\<close> \<open>variant-1\<close>, \<open>CreateCheckout\<close> raises \<open>CatalogUnavailable\<close>, and
  the action's outcome is that error, not the redirect to the request's URL.
\<close>

theorem checkout_failure_redirect_counterexample:
  "params_get (formData (submission [(''variantId'', ''variant-1'')])) ''variantId''
     = Some ''variant-1''
   \<and> CreateCheckout unavailable_sdk ''variant-1'' = Inl CatalogUnavailable
   \<and> fst (action unavailable_sdk (submission [(''variantId'', ''variant-1'')]))
       = Inl CatalogUnavailable
   \<and> fst (action unavailable_sdk (submission [(''variantId'', ''variant-1'')]))
       \<noteq> Inr (redirect (href (url (submission [(''variantId'', ''variant-1'')]))))"
  by (simp add: action_def params_get_def submission_def unavailable_sdk_def)

text \<open>
  Claim C5. A submission whose \<open>variantId\<close> is absent or empty is answered with a redirect
  whose \<open>Location\<close> is the request's own URL, and no catalog operation is issued.
\<close>

theorem missing_variant_redirects_without_catalog_call:
  assumes "params_get (formData req) ''variantId'' = None
         \<or> params_get (formData req) ''variantId'' = Some []"
  shows "action s req = (Inr (redirect (href (url req))), [])
       \<and> resp_headers (redirect (href (url req))) ''Location'' = Some (href (url req))"
  using assms by (auto simp: action_def redirect_def)

theorem missing_variant_redirects_without_catalog_call_witness:
  "action scenario_sdk (submission []) =
     (Inr (redirect ''https://shop.example/products/classic-tee''), [])
   \<and> action scenario_sdk (submission [(''variantId'', [])]) =
     (Inr (redirect ''https://shop.example/products/classic-tee''), [])"
proof -
  have absent: "action scenario_sdk (submission []) =
     (Inr (redirect ''https://shop.example/products/classic-tee''), [])"
    using missing_variant_redirects_without_catalog_call [of "submission []" scenario_sdk]
    by (simp add: params_get_def submission_def)
  have empty: "action scenario_sdk (submission [(''variantId'', [])]) =
     (Inr (redirect ''https://shop.example/products/classic-tee''), [])"
    using missing_variant_redirects_without_catalog_call
      [of "submission [(''variantId'', [])]" scenario_sdk]
    by (simp add: params_get_def submission_def)
  from absent empty show ?thesis by simp
qed

section \<open>Script negotiation in the root loader\<close>

lemma root_loader_override:
  assumes "params_get (searchParams (url req)) ''js'' = Some v"
  shows "root_loader st req =
           json \<lparr>js = Some (PBool (v = ''1''))\<rparr>
             [''Set-Cookie'' \<mapsto>
                commitSession st ((getSession st (cookie req))(''js'' \<mapsto> PBool (v = ''1'')))]"
  using assms by (simp add: root_loader_def params_has_def params_get_def Let_def)

lemma root_loader_fallback:
  assumes "params_get (searchParams (url req)) ''js'' = None"
  shows "root_loader st req =
           json \<lparr>js = getSession st (cookie req) ''js''\<rparr>
             [''Set-Cookie'' \<mapsto> commitSession st (getSession st (cookie req))]"
  using assms by (simp add: root_loader_def params_has_def params_get_def Let_def)

text \<open>
  Claim C3. When the URL carries the \<open>js\<close> parameter with value \<open>v\<close>, the resolved flag is
  the boolean \<open>v = "1"\<close> whatever the session held, scripts are attached exactly when it is
  true, and the cookie that is issued encodes the session with \<open>js\<close> set to that boolean.
  With a codec that gives the \<open>js\<close> key of that bag back on decoding, decoding the issued
  cookie yields the same boolean.
\<close>

theorem js_override_wins_and_sticks:
  assumes "params_get (searchParams (url req)) ''js'' = Some v"
    and "getSession st
           (Some (commitSession st ((getSession st (cookie req))(''js'' \<mapsto> PBool (v = ''1''))))) ''js''
         = ((getSession st (cookie req))(''js'' \<mapsto> PBool (v = ''1''))) ''js''"
  shows "resp_body (root_loader st req) = Some \<lparr>js = Some (PBool (v = ''1''))\<rparr>
       \<and> scripts (App \<lparr>js = Some (PBool (v = ''1''))\<rparr>) = (v = ''1'')
       \<and> resp_headers (root_loader st req) ''Set-Cookie''
           = Some (commitSession st ((getSession st (cookie req))(''js'' \<mapsto> PBool (v = ''1''))))
       \<and> getSession st (resp_headers (root_loader st req) ''Set-Cookie'') ''js''
           = Some (PBool (v = ''1''))"
  using assms(2) unfolding root_loader_override [OF assms(1)]
  by (simp add: json_def App_def Document_def)

theorem js_override_wins_and_sticks_witness:
  "resp_body (root_loader js_storage (page_request [(''js'', ''1'')] (Some ''js=false'')))
     = Some \<lparr>js = Some (PBool True)\<rparr>
   \<and> resp_headers (root_loader js_storage (page_request [(''js'', ''1'')] (Some ''js=false'')))
       ''Set-Cookie''
     = Some ''js=true''
   \<and> getSession js_storage
        (resp_headers (root_loader js_storage (page_request [(''js'', ''1'')] (Some ''js=false'')))
           ''Set-Cookie'') ''js''
     = Some (PBool True)"
  using js_override_wins_and_sticks
    [of "page_request [(''js'', ''1'')] (Some ''js=false'')" "''1''" js_storage]
  by (simp add: params_get_def page_request_def js_storage_def)

text \<open>
  Claim C6. Without a \<open>js\<close> parameter and with no \<open>js\<close> key in the decoded session, the
  loader's flag is \<open>undefined\<close>, which is falsy: no script is attached for that render. The
  cookie that is issued encodes the decoded session as it was, so its \<open>js\<close> key is still
  absent.
\<close>

theorem unset_renders_without_script_and_is_not_persisted:
  assumes "params_get (searchParams (url req)) ''js'' = None"
    and "getSession st (cookie req) ''js'' = None"
  shows "resp_body (root_loader st req) = Some \<lparr>js = None\<rparr>
       \<and> \<not> truthy (js \<lparr>js = None\<rparr>)
       \<and> \<not> scripts (App \<lparr>js = None\<rparr>)
       \<and> (\<exists>b. resp_headers (root_loader st req) ''Set-Cookie'' = Some (commitSession st b)
              \<and> b = getSession st (cookie req) \<and> b ''js'' = None)"
  unfolding root_loader_fallback [OF assms(1)]
  using assms(2) by (simp add: json_def App_def Document_def)

theorem unset_renders_without_script_and_is_not_persisted_witness:
  "getSession js_storage (cookie (page_request [] None)) ''js'' = None
   \<and> resp_body (root_loader js_storage (page_request [] None)) = Some \<lparr>js = None\<rparr>
   \<and> resp_headers (root_loader js_storage (page_request [] None)) ''Set-Cookie'' = Some []"
  using unset_renders_without_script_and_is_not_persisted [of "page_request [] None" js_storage]
  by (simp add: params_get_def page_request_def js_storage_def)

text \<open>
  Claim C10. When the URL carries a \<open>js\<close> parameter whose value is not exactly \<open>"1"\<close>
  (\<open>"0"\<close>, the empty string, anything else), the flag resolves to \<open>false\<close>, no script is
  attached, and the cookie that is issued encodes the session with \<open>js\<close> set to \<open>false\<close>,
  whatever was stored before.
\<close>

theorem js_other_than_1_resolves_and_persists_false:
  assumes "params_get (searchParams (url req)) ''js'' = Some v" and "v \<noteq> ''1''"
  shows "resp_body (root_loader st req) = Some \<lparr>js = Some (PBool False)\<rparr>
       \<and> \<not> scripts (App \<lparr>js = Some (PBool False)\<rparr>)
       \<and> resp_headers (root_loader st req) ''Set-Cookie''
           = Some (commitSession st ((getSession st (cookie req))(''js'' \<mapsto> PBool False)))
       \<and> ((getSession st (cookie req))(''js'' \<mapsto> PBool False)) ''js'' = Some (PBool False)"
  using assms(2) unfolding root_loader_override [OF assms(1)]
  by (simp add: json_def App_def Document_def)

theorem js_other_than_1_resolves_and_persists_false_witness:
  "getSession js_storage (cookie (page_request [(''js'', ''0'')] (Some ''js=true''))) ''js''
     = Some (PBool True)
   \<and> resp_body (root_loader js_storage (page_request [(''js'', ''0'')] (Some ''js=true'')))
       = Some \<lparr>js = Some (PBool False)\<rparr>
   \<and> resp_headers (root_loader js_storage (page_request [(''js'', ''0'')] (Some ''js=true'')))
         ''Set-Cookie''
       = Some ''js=false''
   \<and> resp_body (root_loader js_storage (page_request [(''js'', [])] (Some ''js=true'')))
       = Some \<lparr>js = Some (PBool False)\<rparr>
   \<and> resp_body (root_loader js_storage (page_request [(''js'', ''true'')] (Some ''js=true'')))
       = Some \<lparr>js = Some (PBool False)\<rparr>"
  using js_other_than_1_resolves_and_persists_false
    [of "page_request [(''js'', ''0'')] (Some ''js=true'')" "''0''" js_storage]
    js_other_than_1_resolves_and_persists_false
    [of "page_request [(''js'', [])] (Some ''js=true'')" "[]" js_storage]
    js_other_than_1_resolves_and_persists_false
    [of "page_request [(''js'', ''true'')] (Some ''js=true'')" "''true''" js_storage]
  by (simp add: params_get_def page_request_def js_storage_def)

section \<open>The catch boundary\<close>

lemma status_500: "string_of_nat 500 = ''500''"
  by code_simp

text \<open>
  Claim C9. A caught response whose status is neither 401 nor 404 makes the boundary throw
  an error that names the status; the boundary renders a document exactly for the statuses
  401 and 404.
\<close>

theorem unexpected_status_escalates:
  "(status c \<noteq> 401 \<and> status c \<noteq> 404 \<longrightarrow>
      CatchBoundary c =
        Inl (Error (''Unexpected caught response with status: '' @ string_of_nat (status c))))
   \<and> ((\<exists>d. CatchBoundary c = Inr d) \<longleftrightarrow> status c = 401 \<or> status c = 404)"
  by (auto simp: CatchBoundary_def)

theorem unexpected_status_escalates_witness:
  "CatchBoundary \<lparr>status = 500, statusText = ''Internal Server Error''\<rparr>
     = Inl (Error ''Unexpected caught response with status: 500'')
   \<and> (\<exists>d. CatchBoundary \<lparr>status = 404, statusText = ''Not Found''\<rparr> = Inr d)
   \<and> (\<exists>d. CatchBoundary \<lparr>status = 401, statusText = ''Unauthorized''\<rparr> = Inr d)"
  using unexpected_status_escalates [of "\<lparr>status = 500, statusText = ''Internal Server Error''\<rparr>"]
    unexpected_status_escalates [of "\<lparr>status = 404, statusText = ''Not Found''\<rparr>"]
    unexpected_status_escalates [of "\<lparr>status = 401, statusText = ''Unauthorized''\<rparr>"]
  by (simp add: status_500)

end
